theory Spec2Isabelle
  imports Complex_Main
begin

section \<open>Data model\<close>

text \<open>
  The notebook keeps one pandas DataFrame, \<^verbatim>\<open>df_dataset\<close>, and rewrites it cell by cell.
  A DataFrame is modelled column-wise: a map from the column name to the column, a list of
  cells addressed by row position. A cell carries its dtype: a float64 (\<open>F\<close>), an int64
  (\<open>I\<close>), a bool (\<open>B\<close>) or a Python string (\<open>S\<close>).

  float64 values are modelled as real numbers: rounding, infinities and NaN are outside the
  model. Everything below that speaks of a quotient or a square root speaks of the exact one.

  The columns of a pandas frame all have the same number of rows. The model does not enforce
  it, and no property below depends on it.
\<close>

datatype cell = F real | I int | B bool | S string

type_synonym series = "cell list"

type_synonym dataframe = "string \<rightharpoonup> series"

datatype error = KeyError string | TypeError | ValueError

text \<open>A line written by \<^verbatim>\<open>print(template.format(args))\<close>: the template and its arguments.\<close>

datatype printed = Printed string "cell list"

text \<open>The state the first cells work on: the frame and what has been written to the output.\<close>

record notebook =
  df_dataset :: dataframe
  written :: "printed list"

section \<open>Exceptions and loops\<close>

text \<open>A raised exception ends the computation: \<open>Inl\<close> is passed on, \<open>Inr\<close> continues.\<close>

fun and_then :: "error + 'a \<Rightarrow> ('a \<Rightarrow> error + 'b) \<Rightarrow> error + 'b" where
  "and_then (Inl e) f = Inl e"
| "and_then (Inr x) f = f x"

text \<open>\<^verbatim>\<open>for x in xs: body\<close>, the body rewriting the state.\<close>

fun for_each :: "'a list \<Rightarrow> ('a \<Rightarrow> 's \<Rightarrow> error + 's) \<Rightarrow> 's \<Rightarrow> error + 's" where
  "for_each [] body s = Inr s"
| "for_each (x # xs) body s = and_then (body x s) (for_each xs body)"

text \<open>An elementwise operation on a column raises as soon as one cell does.\<close>

fun map_cells :: "('a \<Rightarrow> error + 'b) \<Rightarrow> 'a list \<Rightarrow> error + 'b list" where
  "map_cells f [] = Inr []"
| "map_cells f (c # cs) =
     and_then (f c) (\<lambda>v. and_then (map_cells f cs) (\<lambda>vs. Inr (v # vs)))"

section \<open>The pandas and NumPy operations the cells call\<close>

text \<open>\<^verbatim>\<open>df[key]\<close> read: a missing column raises KeyError.\<close>

definition getitem :: "dataframe \<Rightarrow> string \<Rightarrow> error + series" where
  "getitem df key = (case df key of None \<Rightarrow> Inl (KeyError key) | Some col \<Rightarrow> Inr col)"

text \<open>The number a cell stands for in arithmetic; a string has none.\<close>

fun to_float :: "cell \<Rightarrow> error + real" where
  "to_float (F x) = Inr x"
| "to_float (I n) = Inr (real_of_int n)"
| "to_float (B b) = Inr (if b then 1 else 0)"
| "to_float (S s) = Inl TypeError"

text \<open>
  \<^verbatim>\<open>column / d\<close>: true division, the result is a float64 column. The quotient of the
  model is the exact one. float64 arithmetic rounds it, and takes a quotient below its
  smallest positive number to zero: 5e-324 / 105 is 0.0 there and not zero here. So a
  statement that two quotients differ is made below only of concrete numbers for which it
  holds of float64 arithmetic too.
\<close>

definition truediv :: "real \<Rightarrow> cell \<Rightarrow> error + cell" where
  "truediv d c = and_then (to_float c) (\<lambda>x. Inr (F (x / d)))"

definition series_truediv :: "series \<Rightarrow> real \<Rightarrow> error + series" where
  "series_truediv col d = map_cells (truediv d) col"

text \<open>\<^verbatim>\<open>column == n\<close>: elementwise comparison with an integer; a string equals no number.\<close>

fun cell_eq :: "int \<Rightarrow> cell \<Rightarrow> bool" where
  "cell_eq n (F x) = (x = real_of_int n)"
| "cell_eq n (I m) = (m = n)"
| "cell_eq n (B b) = ((if b then 1 else 0) = n)"
| "cell_eq n (S s) = False"

definition series_eq :: "series \<Rightarrow> int \<Rightarrow> series" where
  "series_eq col n = map (\<lambda>c. B (cell_eq n c)) col"

section \<open>Normalize the location features (cell 13)\<close>

text \<open>
  \<^verbatim>\<open>
  for action in ['action', 'action1', 'action2']:
      for side in ['start', 'end']:
          key_x = '{}_{}_x'.format(action, side)
          df_dataset[key_x] = df_dataset[key_x] / 105
          key_y = '{}_{}_y'.format(action, side)
          df_dataset[key_y] = df_dataset[key_y] / 68
  \<close>
\<close>

text \<open>\<^verbatim>\<open>df[key] = df[key] / d\<close>: the column is read, divided and stored under the same name.\<close>

definition rescale :: "string \<Rightarrow> real \<Rightarrow> dataframe \<Rightarrow> error + dataframe" where
  "rescale key d df =
     and_then (getitem df key) (\<lambda>col.
     and_then (series_truediv col d) (\<lambda>col'. Inr (df(key \<mapsto> col'))))"

definition key_x :: "string \<Rightarrow> string \<Rightarrow> string" where
  "key_x action side = action @ ''_'' @ side @ ''_x''"

definition key_y :: "string \<Rightarrow> string \<Rightarrow> string" where
  "key_y action side = action @ ''_'' @ side @ ''_y''"

definition normalize_side :: "string \<Rightarrow> string \<Rightarrow> dataframe \<Rightarrow> error + dataframe" where
  "normalize_side action side df =
     and_then (rescale (key_x action side) 105 df) (rescale (key_y action side) 68)"

definition actions :: "string list" where
  "actions = [''action'', ''action1'', ''action2'']"

definition sides :: "string list" where
  "sides = [''start'', ''end'']"

definition normalize_locations :: "dataframe \<Rightarrow> error + dataframe" where
  "normalize_locations df =
     for_each actions (\<lambda>action. for_each sides (\<lambda>side. normalize_side action side)) df"

text \<open>The cell as a step of the notebook: the frame is replaced, nothing is written out.\<close>

definition cell_13 :: "notebook \<Rightarrow> error + notebook" where
  "cell_13 nb =
     and_then (normalize_locations (df_dataset nb)) (\<lambda>df. Inr (nb\<lparr>df_dataset := df\<rparr>))"

section \<open>Compute additional features (cells 17 to 19)\<close>

text \<open>
  \<^verbatim>\<open>
  goal = (1, 0.5)
  for action in ['action', 'action1', 'action2']:
      key_start_x = '{action}_start_x'.format(action=action)
      key_start_y = '{action}_start_y'.format(action=action)
      key_start_distance = '{action}_start_distance'.format(action=action)
      df_dataset[key_start_distance] = df_dataset.apply(
          lambda s: distance.euclidean((s[key_start_x], s[key_start_y]), goal), axis=1)
  \<close>
\<close>

definition goal :: "real \<times> real" where
  "goal = (1, 1 / 2)"

text \<open>
  Modelled from the spec: \<^verbatim>\<open>distance.euclidean\<close> is SciPy's and not part of the source. It
  is the 2-norm of the difference of its two arguments, the Euclidean distance of section 4.2
  of the specification, here between two points of the plane.
\<close>

definition euclidean :: "real \<times> real \<Rightarrow> real \<times> real \<Rightarrow> real" where
  "euclidean u v = sqrt ((fst u - fst v)\<^sup>2 + (snd u - snd v)\<^sup>2)"

text \<open>The lambda on one row: both cells become numbers, a string cell raises.\<close>

definition row_distance :: "cell \<times> cell \<Rightarrow> error + cell" where
  "row_distance s =
     and_then (to_float (fst s)) (\<lambda>x.
     and_then (to_float (snd s)) (\<lambda>y. Inr (F (euclidean (x, y) goal))))"

text \<open>
  \<^verbatim>\<open>apply(..., axis=1)\<close> runs the lambda on every row: here on the rows of the two columns
  it reads. The result is stored as the distance column of the action.
\<close>

definition start_distance :: "string \<Rightarrow> dataframe \<Rightarrow> error + dataframe" where
  "start_distance action df =
     (let key_start_x = action @ ''_start_x'';
          key_start_y = action @ ''_start_y'';
          key_start_distance = action @ ''_start_distance''
      in and_then (getitem df key_start_x) (\<lambda>xs.
         and_then (getitem df key_start_y) (\<lambda>ys.
         and_then (map_cells row_distance (zip xs ys)) (\<lambda>ds.
         Inr (df(key_start_distance \<mapsto> ds))))))"

definition compute_distances :: "dataframe \<Rightarrow> error + dataframe" where
  "compute_distances df = for_each actions start_distance df"

text \<open>
  \<^verbatim>\<open>
  for action in ['action', 'action1', 'action2']:
      key_body_part_id = '{action}_body_part_id'.format(action=action)
      key_is_foot = '{action}_is_foot'.format(action=action)
      key_is_head = '{action}_is_head'.format(action=action)
      key_is_other = '{action}_is_other'.format(action=action)
      df_dataset[key_is_foot] = df_dataset[key_body_part_id] == 0
      df_dataset[key_is_head] = df_dataset[key_body_part_id] == 1
      df_dataset[key_is_other] = df_dataset[key_body_part_id] == 2
  \<close>
\<close>

text \<open>\<^verbatim>\<open>df[target] = df[source] == n\<close>\<close>

definition indicator :: "string \<Rightarrow> string \<Rightarrow> int \<Rightarrow> dataframe \<Rightarrow> error + dataframe" where
  "indicator target source n df =
     and_then (getitem df source) (\<lambda>col. Inr (df(target \<mapsto> series_eq col n)))"

definition body_part :: "string \<Rightarrow> dataframe \<Rightarrow> error + dataframe" where
  "body_part action df =
     (let key_body_part_id = action @ ''_body_part_id'';
          key_is_foot = action @ ''_is_foot'';
          key_is_head = action @ ''_is_head'';
          key_is_other = action @ ''_is_other''
      in and_then (indicator key_is_foot key_body_part_id 0 df) (\<lambda>df1.
         and_then (indicator key_is_head key_body_part_id 1 df1)
           (indicator key_is_other key_body_part_id 2)))"

definition determine_body_parts :: "dataframe \<Rightarrow> error + dataframe" where
  "determine_body_parts df = for_each actions body_part df"

section \<open>Construct the dataset (cells 22 and 23)\<close>

definition columns_features :: "string list" where
  "columns_features =
     [''action_start_x'', ''action_start_y'', ''action_is_foot'', ''action_is_head'',
      ''action_start_distance'', ''action1_start_distance'', ''action2_start_distance'']"

definition column_target :: string where
  "column_target = ''action_result''"

text \<open>
  \<^verbatim>\<open>df[list_of_names]\<close>: the named columns in the order of the list; a missing one raises
  KeyError. The selection is kept as a list of named columns.
\<close>

type_synonym matrix = "(string \<times> series) list"

definition select_columns :: "dataframe \<Rightarrow> string list \<Rightarrow> error + matrix" where
  "select_columns df keys =
     map_cells (\<lambda>key. and_then (getitem df key) (\<lambda>col. Inr (key, col))) keys"

text \<open>\<^verbatim>\<open>X = df_dataset[columns_features]; y = df_dataset[column_target]\<close>\<close>

definition construct_dataset :: "dataframe \<Rightarrow> error + matrix \<times> series" where
  "construct_dataset df =
     and_then (select_columns df columns_features) (\<lambda>X.
     and_then (getitem df column_target) (\<lambda>y. Inr (X, y)))"

text \<open>Cells 13, 18, 19 and 23 in the order the notebook runs them, from the loaded frame.\<close>

definition prepare :: "dataframe \<Rightarrow> error + matrix \<times> series" where
  "prepare df =
     and_then (normalize_locations df) (\<lambda>df1.
     and_then (compute_distances df1) (\<lambda>df2.
     and_then (determine_body_parts df2) construct_dataset))"

section \<open>Split the dataset (cell 25)\<close>

text \<open>
  \<^verbatim>\<open>X_train, X_test, y_train, y_test = train_test_split(X, y, test_size=0.10)\<close>

  \<^verbatim>\<open>train_test_split\<close> is scikit-learn's and not part of the source, which only calls it.
  It is modelled from sections 4.4 and 7 of the specification: a random row-wise split into
  a train and a test part that keeps the rows of X and y together, with no overlap and no
  loss, failing when the sizes degenerate.
\<close>

text \<open>
  Modelled from the spec: one part of the split, the rows of X and of y that it holds, and as
  its index the positions these rows had in X and y.
\<close>

record part =
  index :: "nat list"
  features :: matrix
  labels :: series

text \<open>Modelled from the spec: the cells of a column at the given row positions, in that order.\<close>

definition take_rows :: "nat list \<Rightarrow> series \<Rightarrow> series" where
  "take_rows idx col = map (\<lambda>i. col ! i) idx"

text \<open>Modelled from the spec: the part made of the given rows; X and y are cut at the same rows.\<close>

definition take_part :: "nat list \<Rightarrow> matrix \<Rightarrow> series \<Rightarrow> part" where
  "take_part idx X y =
     \<lparr>index = idx, features = map (\<lambda>(key, col). (key, take_rows idx col)) X,
      labels = take_rows idx y\<rparr>"

text \<open>
  Modelled from the spec: the split itself. The random shuffle is the parameter \<open>perm\<close>, a
  permutation of the row positions \<open>0..<n\<close>; its first \<open>n_test\<close> positions are the test rows
  and the rest the train rows. The number of test rows is the library's \<open>\<lceil>test_size * n\<rceil>\<close>,
  which the specification gives as about \<open>round (n * 0.10)\<close>. X and y of different numbers of
  rows, a test size outside the open interval from 0 to 1 and an empty train part raise
  ValueError.
\<close>

definition train_test_split ::
  "nat list \<Rightarrow> matrix \<Rightarrow> series \<Rightarrow> real \<Rightarrow> error + part \<times> part" where
  "train_test_split perm X y test_size =
     (let n_samples = length y in
      if \<not> list_all (\<lambda>(key, col). length col = n_samples) X then Inl ValueError
      else if test_size \<le> 0 \<or> 1 \<le> test_size then Inl ValueError
      else
        let n_test = nat \<lceil>test_size * real n_samples\<rceil>;
            n_train = n_samples - n_test
        in if n_train = 0 then Inl ValueError
           else Inr (take_part (take n_train (drop n_test perm)) X y,
                     take_part (take n_test perm) X y))"

text \<open>The call of cell 25, with the shuffle the library draws.\<close>

definition cell_25 :: "nat list \<Rightarrow> matrix \<Rightarrow> series \<Rightarrow> error + part \<times> part" where
  "cell_25 perm X y = train_test_split perm X y (1 / 10)"

section \<open>The baseline for AUC-PR (cells 33 and 36)\<close>

text \<open>
  \<^verbatim>\<open>
  y_total = y_train.count()
  y_positive = y_train.sum()
  print('The training set contains {} examples of which {} are positives.'.format(y_total, y_positive))
  auc_pr_baseline = y_positive / y_total
  print('The baseline performance for AUC-PR is {}.'.format(auc_pr_baseline))
  \<close>
  \<^verbatim>\<open>count\<close> is the number of cells that are not missing; no cell of the model is.
  \<^verbatim>\<open>sum\<close> adds the cells up: integers and booleans to an integer, a float makes the sum a
  float. pandas joins strings, and the division of cell 36 then raises TypeError; the model
  raises it at the sum already.
\<close>

definition series_count :: "series \<Rightarrow> nat" where
  "series_count col = length col"

fun add_cell :: "cell \<Rightarrow> cell \<Rightarrow> error + cell" where
  "add_cell (I a) (I b) = Inr (I (a + b))"
| "add_cell (I a) (B b) = Inr (I (a + (if b then 1 else 0)))"
| "add_cell (I a) (F x) = Inr (F (real_of_int a + x))"
| "add_cell (F a) c = and_then (to_float c) (\<lambda>x. Inr (F (a + x)))"
| "add_cell acc c = Inl TypeError"

fun series_sum_from :: "cell \<Rightarrow> series \<Rightarrow> error + cell" where
  "series_sum_from acc [] = Inr acc"
| "series_sum_from acc (c # cs) = and_then (add_cell acc c) (\<lambda>acc'. series_sum_from acc' cs)"

definition series_sum :: "series \<Rightarrow> error + cell" where
  "series_sum col = series_sum_from (I 0) col"

definition cell_33 :: "series \<Rightarrow> printed list \<Rightarrow> error + (nat \<times> cell) \<times> printed list" where
  "cell_33 y_train out =
     (let y_total = series_count y_train in
      and_then (series_sum y_train) (\<lambda>y_positive.
      Inr ((y_total, y_positive),
           out @ [Printed ''The training set contains {} examples of which {} are positives.''
                    [I (int y_total), y_positive]])))"

text \<open>
  The quotient of two NumPy numbers: a float, and not a number (\<open>None\<close>) when the training
  set is empty, where NumPy divides zero by zero without raising.
\<close>

definition cell_36 :: "nat \<times> cell \<Rightarrow> printed list \<Rightarrow> error + real option \<times> printed list" where
  "cell_36 totals out =
     (let y_total = fst totals; y_positive = snd totals in
      and_then (to_float y_positive) (\<lambda>p.
      let auc_pr_baseline = (if y_total = 0 then None else Some (p / real y_total)) in
      Inr (auc_pr_baseline,
           out @ [Printed ''The baseline performance for AUC-PR is {}.''
                    [case auc_pr_baseline of None \<Rightarrow> S ''nan'' | Some r \<Rightarrow> F r]])))"

text \<open>The value of \<^verbatim>\<open>auc_pr_baseline\<close> after both cells, from the training labels.\<close>

definition auc_pr_baseline :: "series \<Rightarrow> error + real option" where
  "auc_pr_baseline y_train =
     and_then (cell_33 y_train []) (\<lambda>r. and_then (cell_36 (fst r) (snd r)) (\<lambda>b. Inr (fst b)))"

section \<open>Notions the properties are stated with\<close>

text \<open>The twelve columns cell 13 rewrites, each with its divisor, in the order of the two loops.\<close>

definition coordinate_columns :: "(string \<times> real) list" where
  "coordinate_columns =
     concat (map (\<lambda>action.
       concat (map (\<lambda>side. [(key_x action side, 105), (key_y action side, 68)]) sides)) actions)"

text \<open>A cell that arithmetic accepts, its number, and the cell a division by \<open>d\<close> leaves.\<close>

definition numeric :: "cell \<Rightarrow> bool" where
  "numeric c = (case c of S s \<Rightarrow> False | _ \<Rightarrow> True)"

definition number :: "cell \<Rightarrow> real" where
  "number c = (case to_float c of Inl e \<Rightarrow> 0 | Inr x \<Rightarrow> x)"

definition scaled :: "real \<Rightarrow> cell \<Rightarrow> cell" where
  "scaled d c = F (number c / d)"

text \<open>The frame with each listed column divided by its divisor and every other column as it was.\<close>

definition rescaled :: "(string \<times> real) list \<Rightarrow> dataframe \<Rightarrow> dataframe" where
  "rescaled kds df =
     (\<lambda>k. case map_of kds k of None \<Rightarrow> df k
          | Some d \<Rightarrow> map_option (map (scaled d)) (df k))"

definition numeric_column :: "dataframe \<Rightarrow> string \<Rightarrow> bool" where
  "numeric_column df key = (case df key of None \<Rightarrow> False | Some col \<Rightarrow> list_all numeric col)"

text \<open>A cell that holds a number between two bounds.\<close>

definition inside :: "real \<Rightarrow> real \<Rightarrow> cell \<Rightarrow> bool" where
  "inside lo hi c = (case to_float c of Inl e \<Rightarrow> False | Inr x \<Rightarrow> lo \<le> x \<and> x \<le> hi)"

text \<open>
  Three shots in the schema of the data set, on the pitch: coordinates, body-part codes, the
  name of the action type and the result of the shot.
\<close>

definition sample_shots :: dataframe where
  "sample_shots = map_of
     [(''action_start_x'', [F 105, F 0, F 0]), (''action_start_y'', [F 34, F 34, F 0]),
      (''action_end_x'', [F 105, F 105, F 21]), (''action_end_y'', [F 34, F 30, F 68]),
      (''action1_start_x'', [F 84, F 0, F 0]), (''action1_start_y'', [F 17, F 34, F 0]),
      (''action1_end_x'', [F 105, F 0, F 0]), (''action1_end_y'', [F 34, F 34, F 0]),
      (''action2_start_x'', [F 63, I 42, F 0]), (''action2_start_y'', [F 51, F 34, F 0]),
      (''action2_end_x'', [F 84, F 0, F 0]), (''action2_end_y'', [F 17, F 34, F 0]),
      (''action_body_part_id'', [I 0, I 1, I 2]),
      (''action1_body_part_id'', [I 0, I 0, I 1]),
      (''action2_body_part_id'', [I 2, I 0, I 5]),
      (''action_type_name'', [S ''shot'', S ''shot'', S ''shot'']),
      (''action_result'', [I 1, I 0, I 0])]"

text \<open>The same shots with the first start coordinate off the pitch in two rows.\<close>

definition far_shots :: dataframe where
  "far_shots = sample_shots(''action_start_x'' \<mapsto> [F 210, F (- 21), F 0])"



text \<open>The six columns that hold where an action ended.\<close>

definition end_columns :: "string set" where
  "end_columns = (\<Union>action \<in> set actions. {key_x action ''end'', key_y action ''end''})"

text \<open>The sample with a body-part code of the shot that stands for no body part.\<close>

definition odd_shots :: dataframe where
  "odd_shots = sample_shots(''action_body_part_id'' \<mapsto> [I 2, I 7, I 0])"

text \<open>The sample with other end locations, one of them off the pitch.\<close>

definition moved_shots :: dataframe where
  "moved_shots = sample_shots
     (''action_end_x'' \<mapsto> [F 3, F 4, F 5], ''action1_end_y'' \<mapsto> [F 60, I 2, F 1],
      ''action2_end_x'' \<mapsto> [F 300, F 0, F 0])"

text \<open>A data set of one hundred rows: one feature column and the labels.\<close>

definition hundred_features :: matrix where
  "hundred_features = [(''action_start_x'', map (\<lambda>i. F (real i / 100)) [0..<100])]"

definition hundred_labels :: series where
  "hundred_labels = map (\<lambda>i. I (int (i mod 2))) [0..<100]"

text \<open>The number of training labels that are the integer 1.\<close>

definition positives :: "series \<Rightarrow> nat" where
  "positives col = length (filter (\<lambda>c. c = I 1) col)"

text \<open>Training labels of nine hundred shots, ninety of them goals: the goal rate is 0.10.\<close>

definition ninety_goals :: series where
  "ninety_goals = replicate 90 (I 1) @ replicate 810 (I 0)"

text \<open>The names of the six x columns and of the six y columns of the data set.\<close>

definition x_columns :: "string list" where
  "x_columns = [''action_start_x'', ''action_end_x'', ''action1_start_x'', ''action1_end_x'',
     ''action2_start_x'', ''action2_end_x'']"

definition y_columns :: "string list" where
  "y_columns = [''action_start_y'', ''action_end_y'', ''action1_start_y'', ''action1_end_y'',
     ''action2_start_y'', ''action2_end_y'']"

text \<open>The cell of row \<open>i\<close> in the named column is there and holds a number between two bounds.\<close>

definition cell_inside :: "real \<Rightarrow> real \<Rightarrow> dataframe \<Rightarrow> nat \<Rightarrow> string \<Rightarrow> bool" where
  "cell_inside lo hi df i key =
     (case df key of None \<Rightarrow> False | Some col \<Rightarrow> i < length col \<and> inside lo hi (col ! i))"

section \<open>Exceptions and loops\<close>

lemma and_then_Inr_iff: "and_then m f = Inr y \<longleftrightarrow> (\<exists>x. m = Inr x \<and> f x = Inr y)"
  by (cases m) auto

lemma and_then_assoc: "and_then (and_then m f) g = and_then m (\<lambda>x. and_then (f x) g)"
  by (cases m) auto


lemma for_each_append:
  "for_each (xs @ ys) body s = and_then (for_each xs body s) (for_each ys body)"
proof (induction xs arbitrary: s)
  case Nil
  show ?case by simp
next
  case (Cons x xs)
  then show ?case by (cases "body x s") simp_all
qed

lemma for_each_nested:
  "for_each xs (\<lambda>x. for_each (g x) body) s = for_each (concat (map g xs)) body s"
proof (induction xs arbitrary: s)
  case Nil
  show ?case by simp
next
  case (Cons x xs)
  then show ?case by (cases "for_each (g x) body s") (simp_all add: for_each_append)
qed

section \<open>Cell 13 as one pass over the coordinate columns\<close>

lemma for_each_Nil_fun: "for_each [] body = Inr"
  by (rule ext) simp

lemma for_each_Cons_fun: "for_each (x # xs) body = (\<lambda>s. and_then (body x s) (for_each xs body))"
  by (rule ext) simp

lemma normalize_locations_flat:
  "normalize_locations df = for_each coordinate_columns (\<lambda>kd. rescale (fst kd) (snd kd)) df"
  unfolding normalize_locations_def coordinate_columns_def
  by (simp add: for_each_nested normalize_side_def actions_def sides_def and_then_assoc
      for_each_Nil_fun for_each_Cons_fun)

lemma distinct_coordinate_columns: "distinct (map fst coordinate_columns)"
  by (simp add: coordinate_columns_def actions_def sides_def key_x_def key_y_def)

lemma to_float_numeric: "to_float c = (if numeric c then Inr (number c) else Inl TypeError)"
  by (cases c) (simp_all add: numeric_def number_def)

lemma series_truediv_eq:
  "series_truediv col d = (if list_all numeric col then Inr (map (scaled d) col) else Inl TypeError)"
  unfolding series_truediv_def
  by (induction col) (simp_all add: truediv_def to_float_numeric scaled_def)

lemma rescale_eq:
  "rescale key d df =
     (case df key of None \<Rightarrow> Inl (KeyError key)
      | Some col \<Rightarrow> if list_all numeric col then Inr (df(key \<mapsto> map (scaled d) col))
                    else Inl TypeError)"
  by (simp add: rescale_def getitem_def series_truediv_eq split: option.splits)

lemma for_each_rescale_iff:
  assumes "distinct (map fst kds)"
  shows "for_each kds (\<lambda>kd. rescale (fst kd) (snd kd)) df = Inr df' \<longleftrightarrow>
           (\<forall>k \<in> fst ` set kds. numeric_column df k) \<and> df' = rescaled kds df"
  using assms
proof (induction kds arbitrary: df)
  case Nil
  show ?case by (auto simp: rescaled_def)
next
  case (Cons kd kds)
  obtain k d where kd: "kd = (k, d)" by (cases kd)
  from Cons.prems have fresh: "k \<notin> fst ` set kds" and dist: "distinct (map fst kds)"
    by (auto simp: kd)
  show ?case
  proof (cases "numeric_column df k")
    case False
    then show ?thesis
      by (auto simp: kd rescale_eq numeric_column_def split: option.splits)
  next
    case True
    then obtain col where col: "df k = Some col" "list_all numeric col"
      by (auto simp: numeric_column_def split: option.splits)
    define df1 where "df1 = df(k \<mapsto> map (scaled d) col)"
    have step: "rescale k d df = Inr df1"
      by (simp add: rescale_eq col df1_def)
    have same: "numeric_column df1 k' = numeric_column df k'" if "k' \<in> fst ` set kds" for k'
      using that fresh by (auto simp: numeric_column_def df1_def)
    have res: "rescaled kds df1 = rescaled (kd # kds) df"
    proof (rule ext)
      fix k'
      show "rescaled kds df1 k' = rescaled (kd # kds) df k'"
      proof (cases "k' = k")
        case True
        moreover have "map_of kds k = None"
          using fresh by (simp add: map_of_eq_None_iff)
        ultimately show ?thesis by (simp add: rescaled_def kd df1_def col)
      next
        case False
        then show ?thesis by (simp add: rescaled_def kd df1_def split: option.splits)
      qed
    qed
    have "for_each (kd # kds) (\<lambda>kd. rescale (fst kd) (snd kd)) df = Inr df' \<longleftrightarrow>
          for_each kds (\<lambda>kd. rescale (fst kd) (snd kd)) df1 = Inr df'"
      by (simp add: kd step)
    also have "\<dots> \<longleftrightarrow> (\<forall>k \<in> fst ` set kds. numeric_column df1 k) \<and> df' = rescaled kds df1"
      by (rule Cons.IH [OF dist])
    also have "\<dots> \<longleftrightarrow> (\<forall>k \<in> fst ` set (kd # kds). numeric_column df k) \<and> df' = rescaled (kd # kds) df"
      using True same by (auto simp: res kd)
    finally show ?thesis .
  qed
qed

lemma normalize_locations_iff:
  "normalize_locations df = Inr df' \<longleftrightarrow>
     (\<forall>k \<in> fst ` set coordinate_columns. numeric_column df k) \<and> df' = rescaled coordinate_columns df"
  unfolding normalize_locations_flat
  by (rule for_each_rescale_iff [OF distinct_coordinate_columns])

lemma inside_numeric: "inside lo hi c \<Longrightarrow> numeric c"
  by (cases c) (simp_all add: inside_def numeric_def)

lemma inside_scaled: "0 < d \<Longrightarrow> inside 0 d c \<Longrightarrow> inside 0 1 (scaled d c)"
  by (cases c) (simp_all add: inside_def scaled_def number_def)

lemma set_coordinate_columns:
  "set coordinate_columns =
     (\<Union>action \<in> set actions. \<Union>side \<in> set sides.
        {(key_x action side, 105), (key_y action side, 68)})"
  by (simp add: coordinate_columns_def)

section \<open>What cell 13 leaves in the frame\<close>

lemma rescaled_coordinate:
  assumes "action \<in> set actions" "side \<in> set sides"
  shows "rescaled coordinate_columns df (key_x action side) =
           map_option (map (scaled 105)) (df (key_x action side))"
    and "rescaled coordinate_columns df (key_y action side) =
           map_option (map (scaled 68)) (df (key_y action side))"
proof -
  have "(key_x action side, 105) \<in> set coordinate_columns"
       "(key_y action side, 68) \<in> set coordinate_columns"
    using assms by (auto simp: set_coordinate_columns)
  then have "map_of coordinate_columns (key_x action side) = Some 105"
            "map_of coordinate_columns (key_y action side) = Some 68"
    using distinct_coordinate_columns by simp_all
  then show "rescaled coordinate_columns df (key_x action side) =
           map_option (map (scaled 105)) (df (key_x action side))"
    and "rescaled coordinate_columns df (key_y action side) =
           map_option (map (scaled 68)) (df (key_y action side))"
    by (simp_all add: rescaled_def)
qed

lemma rescaled_other:
  "k \<notin> fst ` set coordinate_columns \<Longrightarrow> rescaled coordinate_columns df k = df k"
proof -
  assume "k \<notin> fst ` set coordinate_columns"
  then have "map_of coordinate_columns k = None"
    by (simp add: map_of_eq_None_iff)
  then show ?thesis by (simp add: rescaled_def)
qed

lemma cell_13_iff:
  "cell_13 nb = Inr nb' \<longleftrightarrow>
     (\<forall>k \<in> fst ` set coordinate_columns. numeric_column (df_dataset nb) k) \<and>
     nb' = nb\<lparr>df_dataset := rescaled coordinate_columns (df_dataset nb)\<rparr>"
  by (auto simp: cell_13_def and_then_Inr_iff normalize_locations_iff)

text \<open>
  C8, as the code has it: coordinates are never compared with the pitch bounds. Whenever the
  twelve coordinate columns are present and hold numbers, on the pitch or not, cell 13 raises
  nothing and returns the frame with every x column divided by 105 and every y column divided
  by 68, and it writes nothing to the output: no warning is logged.
\<close>

theorem out_of_range_proceeds:
  assumes "\<forall>action \<in> set actions. \<forall>side \<in> set sides.
             numeric_column (df_dataset nb) (key_x action side) \<and>
             numeric_column (df_dataset nb) (key_y action side)"
  shows "\<exists>nb'. cell_13 nb = Inr nb' \<and> written nb' = written nb \<and>
           (\<forall>action \<in> set actions. \<forall>side \<in> set sides.
              df_dataset nb' (key_x action side) =
                map_option (map (scaled 105)) (df_dataset nb (key_x action side)) \<and>
              df_dataset nb' (key_y action side) =
                map_option (map (scaled 68)) (df_dataset nb (key_y action side)))"
proof -
  have "\<forall>k \<in> fst ` set coordinate_columns. numeric_column (df_dataset nb) k"
    using assms by (auto simp: set_coordinate_columns)
  then have "cell_13 nb = Inr (nb\<lparr>df_dataset := rescaled coordinate_columns (df_dataset nb)\<rparr>)"
    by (simp add: cell_13_iff)
  then show ?thesis
    by (simp add: rescaled_coordinate)
qed

lemma coordinate_keys:
  "fst ` set coordinate_columns =
     {''action_start_x'', ''action_start_y'', ''action_end_x'', ''action_end_y'',
      ''action1_start_x'', ''action1_start_y'', ''action1_end_x'', ''action1_end_y'',
      ''action2_start_x'', ''action2_start_y'', ''action2_end_x'', ''action2_end_y''}"
  by (simp add: coordinate_columns_def actions_def sides_def key_x_def key_y_def)

lemma far_shots_numeric: "\<forall>k \<in> fst ` set coordinate_columns. numeric_column far_shots k"
  unfolding coordinate_keys
  by (simp add: far_shots_def sample_shots_def numeric_column_def numeric_def)

theorem out_of_range_proceeds_witness:
  "\<exists>nb'. cell_13 \<lparr>df_dataset = far_shots, written = []\<rparr> = Inr nb' \<and> written nb' = [] \<and>
     df_dataset nb' ''action_start_x'' = Some [F 2, F (- 1 / 5), F 0]"
proof -
  have h: "\<forall>action \<in> set actions. \<forall>side \<in> set sides.
             numeric_column (df_dataset \<lparr>df_dataset = far_shots, written = []\<rparr>) (key_x action side) \<and>
             numeric_column (df_dataset \<lparr>df_dataset = far_shots, written = []\<rparr>) (key_y action side)"
    using far_shots_numeric by (auto simp: set_coordinate_columns)
  from out_of_range_proceeds [OF h] obtain nb' where
    run: "cell_13 \<lparr>df_dataset = far_shots, written = []\<rparr> = Inr nb'" and out: "written nb' = []"
    and cols: "\<forall>action \<in> set actions. \<forall>side \<in> set sides.
              df_dataset nb' (key_x action side) =
                map_option (map (scaled 105)) (far_shots (key_x action side))"
    by auto
  from cols have "df_dataset nb' (key_x ''action'' ''start'') =
      map_option (map (scaled 105)) (far_shots (key_x ''action'' ''start''))"
    by (simp add: actions_def sides_def)
  then have "df_dataset nb' ''action_start_x'' = Some [F 2, F (- 1 / 5), F 0]"
    by (simp add: key_x_def far_shots_def scaled_def number_def)
  with run out show ?thesis by blast
qed

text \<open>
  C8 as stated fails: with a start coordinate of 210 and one of -21 in the frame, cell 13
  returns and the output is still empty.
\<close>

theorem out_of_range_not_logged:
  "far_shots ''action_start_x'' = Some [F 210, F (- 21), F 0] \<and>
   (case cell_13 \<lparr>df_dataset = far_shots, written = []\<rparr> of
      Inl e \<Rightarrow> None | Inr nb' \<Rightarrow> Some (written nb')) = Some []"
  using far_shots_numeric
  by (simp add: cell_13_def normalize_locations_iff [THEN iffD2] far_shots_def)

section \<open>One record on the pitch\<close>

lemma coordinate_names: "fst ` set coordinate_columns = set (x_columns @ y_columns)"
  unfolding coordinate_keys by (auto simp: x_columns_def y_columns_def)

lemma x_column_divisor: "key \<in> set x_columns \<Longrightarrow> map_of coordinate_columns key = Some 105"
  by (auto simp: x_columns_def coordinate_columns_def actions_def sides_def key_x_def key_y_def)

lemma y_column_divisor: "key \<in> set y_columns \<Longrightarrow> map_of coordinate_columns key = Some 68"
  by (auto simp: y_columns_def coordinate_columns_def actions_def sides_def key_x_def key_y_def)

lemma cell_inside_scaled:
  assumes "0 < d" "cell_inside 0 d df i key" "map_of kds key = Some d"
  shows "rescaled kds df key = map_option (map (scaled d)) (df key) \<and>
         cell_inside 0 1 (rescaled kds df) i key"
proof -
  from assms(2) obtain col where col: "df key = Some col" "i < length col" "inside 0 d (col ! i)"
    by (auto simp: cell_inside_def split: option.splits)
  from inside_scaled [OF assms(1) col(3)] col(1,2) assms(3) show ?thesis
    by (simp add: rescaled_def cell_inside_def)
qed

text \<open>
  C1: take a loaded frame whose twelve coordinate columns hold numbers, and a record, the row
  \<open>i\<close>, whose six x coordinates lie between 0 and 105 and whose six y coordinates lie between
  0 and 68. Then the normalizer returns a frame in which every x column is the loaded column
  divided by 105 and every y column the loaded column divided by 68, and in which all twelve
  coordinates of the record lie between 0 and 1. Nothing is asked of the other records.
\<close>

theorem normalized_in_unit_square:
  assumes "\<forall>key \<in> set (x_columns @ y_columns). numeric_column df key"
    and "\<forall>key \<in> set x_columns. cell_inside 0 105 df i key"
    and "\<forall>key \<in> set y_columns. cell_inside 0 68 df i key"
  shows "\<exists>df'. normalize_locations df = Inr df' \<and>
           (\<forall>key \<in> set x_columns.
              df' key = map_option (map (scaled 105)) (df key) \<and> cell_inside 0 1 df' i key) \<and>
           (\<forall>key \<in> set y_columns.
              df' key = map_option (map (scaled 68)) (df key) \<and> cell_inside 0 1 df' i key)"
proof -
  from assms(1) have run: "normalize_locations df = Inr (rescaled coordinate_columns df)"
    by (simp only: normalize_locations_iff coordinate_names)
  have "rescaled coordinate_columns df key = map_option (map (scaled 105)) (df key) \<and>
      cell_inside 0 1 (rescaled coordinate_columns df) i key" if "key \<in> set x_columns" for key
    using that assms(2) by (intro cell_inside_scaled x_column_divisor) simp_all
  moreover have "rescaled coordinate_columns df key = map_option (map (scaled 68)) (df key) \<and>
      cell_inside 0 1 (rescaled coordinate_columns df) i key" if "key \<in> set y_columns" for key
    using that assms(3) by (intro cell_inside_scaled y_column_divisor) simp_all
  ultimately show ?thesis
    unfolding run by blast
qed

lemma far_shots_columns:
  "far_shots ''action_start_x'' = Some [F 210, F (- 21), F 0]"
  "far_shots ''action_end_x'' = Some [F 105, F 105, F 21]"
  "far_shots ''action_end_y'' = Some [F 34, F 30, F 68]"
  by (simp_all add: far_shots_def sample_shots_def)

theorem normalized_in_unit_square_witness:
  "\<exists>df'. normalize_locations far_shots = Inr df' \<and>
      far_shots ''action_start_x'' = Some [F 210, F (- 21), F 0] \<and>
      far_shots ''action_end_x'' = Some [F 105, F 105, F 21] \<and>
      far_shots ''action_end_y'' = Some [F 34, F 30, F 68] \<and>
      df' ''action_start_x'' = Some [F 2, F (- 1 / 5), F 0] \<and>
      df' ''action_end_x'' = Some [F 1, F 1, F (1 / 5)] \<and>
      df' ''action_end_y'' = Some [F (1 / 2), F (15 / 34), F 1] \<and>
      cell_inside 0 1 df' 2 ''action_start_x'' \<and> cell_inside 0 1 df' 2 ''action_end_x'' \<and>
      cell_inside 0 1 df' 2 ''action_end_y''"
proof -
  have num: "\<forall>key \<in> set (x_columns @ y_columns). numeric_column far_shots key"
    using far_shots_numeric by (simp only: coordinate_names)
  have x: "\<forall>key \<in> set x_columns. cell_inside 0 105 far_shots 2 key"
    by (simp add: x_columns_def cell_inside_def inside_def far_shots_def sample_shots_def)
  have y: "\<forall>key \<in> set y_columns. cell_inside 0 68 far_shots 2 key"
    by (simp add: y_columns_def cell_inside_def inside_def far_shots_def sample_shots_def)
  from normalized_in_unit_square [OF num x y] obtain df' where
    run: "normalize_locations far_shots = Inr df'"
    and xs: "\<forall>key \<in> set x_columns.
        df' key = map_option (map (scaled 105)) (far_shots key) \<and> cell_inside 0 1 df' 2 key"
    and ys: "\<forall>key \<in> set y_columns.
        df' key = map_option (map (scaled 68)) (far_shots key) \<and> cell_inside 0 1 df' 2 key"
    by blast
  from xs have sx: "df' ''action_start_x'' = map_option (map (scaled 105)) (far_shots ''action_start_x'')"
    "cell_inside 0 1 df' 2 ''action_start_x''"
    and ex: "df' ''action_end_x'' = map_option (map (scaled 105)) (far_shots ''action_end_x'')"
    "cell_inside 0 1 df' 2 ''action_end_x''"
    by (simp_all add: x_columns_def)
  from ys have ey: "df' ''action_end_y'' = map_option (map (scaled 68)) (far_shots ''action_end_y'')"
    "cell_inside 0 1 df' 2 ''action_end_y''"
    by (simp_all add: y_columns_def)
  have "df' ''action_start_x'' = Some [F 2, F (- 1 / 5), F 0]"
    "df' ''action_end_x'' = Some [F 1, F 1, F (1 / 5)]"
    "df' ''action_end_y'' = Some [F (1 / 2), F (15 / 34), F 1]"
    by (simp_all add: sx(1) ex(1) ey(1) far_shots_columns scaled_def number_def)
  with run sx(2) ex(2) ey(2) far_shots_columns show ?thesis
    by blast
qed

section \<open>The loops of cells 18 and 19\<close>

lemma start_distance_Inr_iff:
  "start_distance action df = Inr df' \<longleftrightarrow>
     (\<exists>xs ys ds. df (action @ ''_start_x'') = Some xs \<and> df (action @ ''_start_y'') = Some ys \<and>
        map_cells row_distance (zip xs ys) = Inr ds \<and>
        df' = df(action @ ''_start_distance'' \<mapsto> ds))"
  by (auto simp: start_distance_def Let_def getitem_def and_then_Inr_iff split: option.splits)

lemma indicator_Inr_iff:
  "indicator target source n df = Inr df' \<longleftrightarrow>
     (\<exists>col. df source = Some col \<and> df' = df(target \<mapsto> series_eq col n))"
  by (auto simp: indicator_def getitem_def and_then_Inr_iff split: option.splits)

lemma body_part_Inr_iff:
  "body_part action df = Inr df' \<longleftrightarrow>
     (\<exists>col. df (action @ ''_body_part_id'') = Some col \<and>
        df' = df(action @ ''_is_foot'' \<mapsto> series_eq col 0,
                 action @ ''_is_head'' \<mapsto> series_eq col 1,
                 action @ ''_is_other'' \<mapsto> series_eq col 2))"
  by (auto simp: body_part_def Let_def indicator_Inr_iff and_then_Inr_iff)

lemma for_each_frame:
  assumes "for_each xs body s = Inr s'"
    and "\<And>x t t'. x \<in> set xs \<Longrightarrow> body x t = Inr t' \<Longrightarrow> t' k = t k"
  shows "s' k = s k"
  using assms
proof (induction xs arbitrary: s)
  case Nil
  then show ?case by simp
next
  case (Cons x xs)
  from Cons.prems(1) obtain t where t: "body x s = Inr t" "for_each xs body t = Inr s'"
    by (auto simp: and_then_Inr_iff)
  have "\<And>y u u'. y \<in> set xs \<Longrightarrow> body y u = Inr u' \<Longrightarrow> u' k = u k"
    using Cons.prems(2) by (meson list.set_intros(2))
  then have "s' k = t k"
    by (rule Cons.IH [OF t(2)])
  also have "t k = s k"
    using Cons.prems(2) [of x s t] t(1) by simp
  finally show ?case .
qed

lemma compute_distances_frame:
  assumes "compute_distances df = Inr df'"
    and "k \<notin> (\<lambda>action. action @ ''_start_distance'') ` set actions"
  shows "df' k = df k"
  using assms(1) unfolding compute_distances_def
proof (rule for_each_frame)
  fix x t t'
  assume "x \<in> set actions" "start_distance x t = Inr t'"
  with assms(2) show "t' k = t k"
    by (auto simp: start_distance_Inr_iff)
qed

lemma determine_body_parts_frame:
  assumes "determine_body_parts df = Inr df'"
    and "k \<notin> (\<Union>action \<in> set actions.
            {action @ ''_is_foot'', action @ ''_is_head'', action @ ''_is_other''})"
  shows "df' k = df k"
  using assms(1) unfolding determine_body_parts_def
proof (rule for_each_frame)
  fix x t t'
  assume "x \<in> set actions" "body_part x t = Inr t'"
  with assms(2) show "t' k = t k"
    by (auto simp: body_part_Inr_iff)
qed

lemma compute_distances_unfold:
  "compute_distances df = Inr df' \<longleftrightarrow>
     (\<exists>d1 d2. start_distance ''action'' df = Inr d1 \<and> start_distance ''action1'' d1 = Inr d2 \<and>
        start_distance ''action2'' d2 = Inr df')"
  by (simp add: compute_distances_def actions_def and_then_Inr_iff)

lemma determine_body_parts_unfold:
  "determine_body_parts df = Inr df' \<longleftrightarrow>
     (\<exists>d1 d2. body_part ''action'' df = Inr d1 \<and> body_part ''action1'' d1 = Inr d2 \<and>
        body_part ''action2'' d2 = Inr df')"
  by (simp add: determine_body_parts_def actions_def and_then_Inr_iff)

lemma compute_distances_column:
  assumes "compute_distances df = Inr df'" "action \<in> set actions"
  shows "\<exists>xs ys ds. df (action @ ''_start_x'') = Some xs \<and> df (action @ ''_start_y'') = Some ys \<and>
           map_cells row_distance (zip xs ys) = Inr ds \<and>
           df' (action @ ''_start_distance'') = Some ds"
  using assms
  by (auto simp: compute_distances_unfold start_distance_Inr_iff actions_def)

lemma determine_body_parts_column:
  assumes "determine_body_parts df = Inr df'" "action \<in> set actions"
  shows "\<exists>col. df (action @ ''_body_part_id'') = Some col \<and>
           df' (action @ ''_is_foot'') = Some (series_eq col 0) \<and>
           df' (action @ ''_is_head'') = Some (series_eq col 1) \<and>
           df' (action @ ''_is_other'') = Some (series_eq col 2)"
  using assms
  by (auto simp: determine_body_parts_unfold body_part_Inr_iff actions_def)

section \<open>Body-part indicators\<close>




section \<open>Distance to the goal\<close>

lemma row_distance_eq:
  "row_distance (cx, cy) =
     (if numeric cx \<and> numeric cy
      then Inr (F (sqrt ((1 - number cx)\<^sup>2 + (1 / 2 - number cy)\<^sup>2)))
      else Inl TypeError)"
  by (simp add: row_distance_def to_float_numeric euclidean_def goal_def power2_commute)






section \<open>Applying cell 13 again\<close>

lemma numeric_scaled: "numeric (scaled d c)"
  by (simp add: scaled_def numeric_def)

lemma rescaled_numeric:
  assumes "numeric_column df k"
  shows "numeric_column (rescaled kds df) k"
proof (cases "map_of kds k")
  case None
  with assms show ?thesis by (simp add: rescaled_def numeric_column_def)
next
  case (Some d)
  with assms show ?thesis
    by (auto simp: rescaled_def numeric_column_def list_all_iff numeric_scaled
        split: option.splits)
qed

lemma sample_shots_numeric: "\<forall>k \<in> fst ` set coordinate_columns. numeric_column sample_shots k"
  unfolding coordinate_keys
  by (simp add: sample_shots_def numeric_column_def numeric_def)

text \<open>
  C6: the normalizer is not idempotent. On the sample, whose first shot starts at x = 105,
  the normalizer returns, and it returns again on its own result; the start x coordinate of
  that shot is 1 after the first application and 1 / 105 after the second, so the frame after
  two applications is not the frame after one.
\<close>

theorem normalize_twice_differs:
  "\<exists>df1 df2. normalize_locations sample_shots = Inr df1 \<and>
      normalize_locations df1 = Inr df2 \<and>
      sample_shots ''action_start_x'' = Some [F 105, F 0, F 0] \<and>
      df1 ''action_start_x'' = Some [F 1, F 0, F 0] \<and>
      df2 ''action_start_x'' = Some [F (1 / 105), F 0, F 0] \<and>
      df2 \<noteq> df1"
proof -
  define df1 where "df1 = rescaled coordinate_columns sample_shots"
  define df2 where "df2 = rescaled coordinate_columns df1"
  have run1: "normalize_locations sample_shots = Inr df1"
    using sample_shots_numeric by (simp add: normalize_locations_iff df1_def)
  have "\<forall>k \<in> fst ` set coordinate_columns. numeric_column df1 k"
    unfolding df1_def using sample_shots_numeric by (blast intro: rescaled_numeric)
  then have run2: "normalize_locations df1 = Inr df2"
    by (simp add: normalize_locations_iff df2_def)
  have key: "''action'' \<in> set actions" "''start'' \<in> set sides"
    by (simp_all add: actions_def sides_def)
  have loaded: "sample_shots ''action_start_x'' = Some [F 105, F 0, F 0]"
    by (simp add: sample_shots_def)
  from rescaled_coordinate(1) [OF key, of sample_shots]
  have once: "df1 ''action_start_x'' = Some [F 1, F 0, F 0]"
    by (simp add: df1_def key_x_def loaded scaled_def number_def)
  from rescaled_coordinate(1) [OF key, of df1]
  have twice: "df2 ''action_start_x'' = Some [F (1 / 105), F 0, F 0]"
    by (simp add: df2_def key_x_def once scaled_def number_def)
  from once twice have "df2 ''action_start_x'' \<noteq> df1 ''action_start_x''"
    by simp
  then have "df2 \<noteq> df1"
    by auto
  with run1 run2 loaded once twice show ?thesis
    by blast
qed

section \<open>When the feature cells return\<close>

lemma map_cells_map:
  "(\<And>x. x \<in> set xs \<Longrightarrow> f x = Inr (g x)) \<Longrightarrow> map_cells f xs = Inr (map g xs)"
  by (induction xs) simp_all

lemma row_distances_total:
  assumes "list_all numeric xs" "list_all numeric ys"
  shows "\<exists>ds. map_cells row_distance (zip xs ys) = Inr ds"
proof -
  have "row_distance s = Inr (F (sqrt ((1 - number (fst s))\<^sup>2 + (1 / 2 - number (snd s))\<^sup>2)))"
    if "s \<in> set (zip xs ys)" for s
  proof -
    obtain cx cy where s: "s = (cx, cy)" by (cases s)
    from that have "cx \<in> set xs" "cy \<in> set ys"
      unfolding s by (rule set_zip_leftD, rule set_zip_rightD)
    with assms have "numeric (fst s)" "numeric (snd s)"
      by (simp_all add: list_all_iff s)
    then show ?thesis
      using row_distance_eq [of "fst s" "snd s"] by simp
  qed
  then have "map_cells row_distance (zip xs ys) =
      Inr (map (\<lambda>s. F (sqrt ((1 - number (fst s))\<^sup>2 + (1 / 2 - number (snd s))\<^sup>2)))
        (zip xs ys))"
    by (rule map_cells_map)
  then show ?thesis ..
qed

lemma start_distance_total:
  assumes "numeric_column df (action @ ''_start_x'')" "numeric_column df (action @ ''_start_y'')"
  shows "\<exists>ds. start_distance action df = Inr (df(action @ ''_start_distance'' \<mapsto> ds))"
proof -
  from assms obtain xs ys where
    "df (action @ ''_start_x'') = Some xs" "list_all numeric xs"
    "df (action @ ''_start_y'') = Some ys" "list_all numeric ys"
    by (auto simp: numeric_column_def split: option.splits)
  moreover from row_distances_total [OF this(2,4)] obtain ds where
    "map_cells row_distance (zip xs ys) = Inr ds" ..
  ultimately show ?thesis
    by (auto simp: start_distance_Inr_iff)
qed

lemma compute_distances_total:
  assumes "\<forall>action \<in> set actions.
             numeric_column df (action @ ''_start_x'') \<and> numeric_column df (action @ ''_start_y'')"
  shows "\<exists>df'. compute_distances df = Inr df'"
proof -
  from assms obtain ds0 where
    s0: "start_distance ''action'' df = Inr (df(''action'' @ ''_start_distance'' \<mapsto> ds0))"
    using start_distance_total [of df "''action''"] by (auto simp: actions_def)
  define d1 where "d1 = df(''action'' @ ''_start_distance'' \<mapsto> ds0)"
  from assms have "numeric_column d1 (''action1'' @ ''_start_x'')"
    "numeric_column d1 (''action1'' @ ''_start_y'')"
    by (simp_all add: d1_def actions_def numeric_column_def)
  from start_distance_total [OF this] obtain ds1 where
    s1: "start_distance ''action1'' d1 = Inr (d1(''action1'' @ ''_start_distance'' \<mapsto> ds1))" ..
  define d2 where "d2 = d1(''action1'' @ ''_start_distance'' \<mapsto> ds1)"
  from assms have "numeric_column d2 (''action2'' @ ''_start_x'')"
    "numeric_column d2 (''action2'' @ ''_start_y'')"
    by (simp_all add: d2_def d1_def actions_def numeric_column_def)
  from start_distance_total [OF this] obtain ds2 where
    s2: "start_distance ''action2'' d2 = Inr (d2(''action2'' @ ''_start_distance'' \<mapsto> ds2))" ..
  from s0 s1 s2 show ?thesis
    unfolding compute_distances_unfold d1_def d2_def by blast
qed

lemma determine_body_parts_total:
  assumes "\<forall>action \<in> set actions. df (action @ ''_body_part_id'') \<noteq> None"
  shows "\<exists>df'. determine_body_parts df = Inr df'"
  using assms
  by (auto simp: determine_body_parts_unfold body_part_Inr_iff actions_def)

section \<open>The data set in terms of the loaded frame\<close>

lemma construct_dataset_Inr_iff:
  "construct_dataset df = Inr (X, y) \<longleftrightarrow>
     (\<exists>c1 c2 c3 c4 c5 c6 c7.
        df ''action_start_x'' = Some c1 \<and> df ''action_start_y'' = Some c2 \<and>
        df ''action_is_foot'' = Some c3 \<and> df ''action_is_head'' = Some c4 \<and>
        df ''action_start_distance'' = Some c5 \<and> df ''action1_start_distance'' = Some c6 \<and>
        df ''action2_start_distance'' = Some c7 \<and>
        X = [(''action_start_x'', c1), (''action_start_y'', c2), (''action_is_foot'', c3),
             (''action_is_head'', c4), (''action_start_distance'', c5),
             (''action1_start_distance'', c6), (''action2_start_distance'', c7)] \<and>
        df ''action_result'' = Some y)"
  by (auto simp: construct_dataset_def select_columns_def columns_features_def column_target_def
      getitem_def and_then_Inr_iff split: option.splits)

lemma distances_of_loaded:
  assumes "normalize_locations df = Inr df1" "compute_distances df1 = Inr df2"
    and "action \<in> set actions"
  shows "\<exists>sx sy ds.
           df (action @ ''_start_x'') = Some sx \<and> df (action @ ''_start_y'') = Some sy \<and>
           df1 (action @ ''_start_x'') = Some (map (scaled 105) sx) \<and>
           df1 (action @ ''_start_y'') = Some (map (scaled 68) sy) \<and>
           map_cells row_distance (zip (map (scaled 105) sx) (map (scaled 68) sy)) = Inr ds \<and>
           df2 (action @ ''_start_distance'') = Some ds"
proof -
  from assms(1) have df1: "df1 = rescaled coordinate_columns df"
    by (simp add: normalize_locations_iff)
  have start: "''start'' \<in> set sides"
    by (simp add: sides_def)
  from rescaled_coordinate [OF assms(3) start, of df]
  have x: "df1 (action @ ''_start_x'') = map_option (map (scaled 105)) (df (action @ ''_start_x''))"
    and y: "df1 (action @ ''_start_y'') = map_option (map (scaled 68)) (df (action @ ''_start_y''))"
    by (simp_all add: df1 key_x_def key_y_def)
  from compute_distances_column [OF assms(2,3)] obtain xs ys ds where
    xs: "df1 (action @ ''_start_x'') = Some xs" and ys: "df1 (action @ ''_start_y'') = Some ys"
    and ds: "map_cells row_distance (zip xs ys) = Inr ds"
      "df2 (action @ ''_start_distance'') = Some ds"
    by blast
  from x xs obtain sx where sx: "df (action @ ''_start_x'') = Some sx" "xs = map (scaled 105) sx"
    by (cases "df (action @ ''_start_x'')") auto
  from y ys obtain sy where sy: "df (action @ ''_start_y'') = Some sy" "ys = map (scaled 68) sy"
    by (cases "df (action @ ''_start_y'')") auto
  from xs ys ds sx sy show ?thesis by simp
qed

lemma prepare_dataset:
  assumes "prepare df = Inr (X, y)"
  shows "\<exists>sx sy sx1 sy1 sx2 sy2 bp ds ds1 ds2.
      df ''action_start_x'' = Some sx \<and> df ''action_start_y'' = Some sy \<and>
      df ''action1_start_x'' = Some sx1 \<and> df ''action1_start_y'' = Some sy1 \<and>
      df ''action2_start_x'' = Some sx2 \<and> df ''action2_start_y'' = Some sy2 \<and>
      df ''action_body_part_id'' = Some bp \<and> df ''action_result'' = Some y \<and>
      map_cells row_distance (zip (map (scaled 105) sx) (map (scaled 68) sy)) = Inr ds \<and>
      map_cells row_distance (zip (map (scaled 105) sx1) (map (scaled 68) sy1)) = Inr ds1 \<and>
      map_cells row_distance (zip (map (scaled 105) sx2) (map (scaled 68) sy2)) = Inr ds2 \<and>
      X = [(''action_start_x'', map (scaled 105) sx), (''action_start_y'', map (scaled 68) sy),
           (''action_is_foot'', series_eq bp 0), (''action_is_head'', series_eq bp 1),
           (''action_start_distance'', ds), (''action1_start_distance'', ds1),
           (''action2_start_distance'', ds2)]"
proof -
  from assms obtain df1 df2 df3 where
    n: "normalize_locations df = Inr df1" and c: "compute_distances df1 = Inr df2" and
    b: "determine_body_parts df2 = Inr df3" and s: "construct_dataset df3 = Inr (X, y)"
    by (auto simp: prepare_def and_then_Inr_iff)
  from n have df1: "df1 = rescaled coordinate_columns df"
    by (simp add: normalize_locations_iff)
  have kept1: "df1 k = df k" if "k \<notin> fst ` set coordinate_columns" for k
    using that by (simp add: df1 rescaled_other)
  note kept2 = compute_distances_frame [OF c]
  note kept3 = determine_body_parts_frame [OF b]
  from distances_of_loaded [OF n c, of "''action''"] obtain sx sy ds where
    a0: "df ''action_start_x'' = Some sx" "df ''action_start_y'' = Some sy"
      "df1 ''action_start_x'' = Some (map (scaled 105) sx)"
      "df1 ''action_start_y'' = Some (map (scaled 68) sy)"
      "map_cells row_distance (zip (map (scaled 105) sx) (map (scaled 68) sy)) = Inr ds"
      "df2 ''action_start_distance'' = Some ds"
    by (auto simp: actions_def)
  from distances_of_loaded [OF n c, of "''action1''"] obtain sx1 sy1 ds1 where
    a1: "df ''action1_start_x'' = Some sx1" "df ''action1_start_y'' = Some sy1"
      "map_cells row_distance (zip (map (scaled 105) sx1) (map (scaled 68) sy1)) = Inr ds1"
      "df2 ''action1_start_distance'' = Some ds1"
    by (auto simp: actions_def)
  from distances_of_loaded [OF n c, of "''action2''"] obtain sx2 sy2 ds2 where
    a2: "df ''action2_start_x'' = Some sx2" "df ''action2_start_y'' = Some sy2"
      "map_cells row_distance (zip (map (scaled 105) sx2) (map (scaled 68) sy2)) = Inr ds2"
      "df2 ''action2_start_distance'' = Some ds2"
    by (auto simp: actions_def)
  from determine_body_parts_column [OF b, of "''action''"] obtain bp where
    bp: "df2 ''action_body_part_id'' = Some bp"
      "df3 ''action_is_foot'' = Some (series_eq bp 0)"
      "df3 ''action_is_head'' = Some (series_eq bp 1)"
    by (auto simp: actions_def)
  have "df2 ''action_body_part_id'' = df1 ''action_body_part_id''"
    by (rule kept2) (simp add: actions_def)
  also have "\<dots> = df ''action_body_part_id''"
    by (rule kept1) (simp add: coordinate_keys)
  finally have bp0: "df ''action_body_part_id'' = Some bp"
    using bp(1) by simp
  have "df3 ''action_result'' = df2 ''action_result''"
    by (rule kept3) (simp add: actions_def)
  also have "\<dots> = df1 ''action_result''"
    by (rule kept2) (simp add: actions_def)
  also have "\<dots> = df ''action_result''"
    by (rule kept1) (simp add: coordinate_keys)
  finally have res: "df3 ''action_result'' = df ''action_result''" .
  have "df3 ''action_start_x'' = df2 ''action_start_x''"
    by (rule kept3) (simp add: actions_def)
  also have "\<dots> = df1 ''action_start_x''"
    by (rule kept2) (simp add: actions_def)
  finally have x3: "df3 ''action_start_x'' = Some (map (scaled 105) sx)"
    using a0(3) by simp
  have "df3 ''action_start_y'' = df2 ''action_start_y''"
    by (rule kept3) (simp add: actions_def)
  also have "\<dots> = df1 ''action_start_y''"
    by (rule kept2) (simp add: actions_def)
  finally have y3: "df3 ''action_start_y'' = Some (map (scaled 68) sy)"
    using a0(4) by simp
  have "df3 ''action_start_distance'' = df2 ''action_start_distance''"
    by (rule kept3) (simp add: actions_def)
  then have d0: "df3 ''action_start_distance'' = Some ds"
    using a0(6) by simp
  have "df3 ''action1_start_distance'' = df2 ''action1_start_distance''"
    by (rule kept3) (simp add: actions_def)
  then have d1: "df3 ''action1_start_distance'' = Some ds1"
    using a1(4) by simp
  have "df3 ''action2_start_distance'' = df2 ''action2_start_distance''"
    by (rule kept3) (simp add: actions_def)
  then have d2: "df3 ''action2_start_distance'' = Some ds2"
    using a2(4) by simp
  from s have "X = [(''action_start_x'', map (scaled 105) sx), (''action_start_y'', map (scaled 68) sy),
           (''action_is_foot'', series_eq bp 0), (''action_is_head'', series_eq bp 1),
           (''action_start_distance'', ds), (''action1_start_distance'', ds1),
           (''action2_start_distance'', ds2)]" and "df ''action_result'' = Some y"
    by (simp_all add: construct_dataset_Inr_iff x3 y3 bp(2,3) d0 d1 d2 res)
  with a0(1,2,5) a1(1-3) a2(1-3) bp0 show ?thesis
    by blast
qed

lemma features_total:
  assumes "\<forall>k \<in> fst ` set coordinate_columns. numeric_column df k"
    and "\<forall>action \<in> set actions. df (action @ ''_body_part_id'') \<noteq> None"
  shows "\<exists>df1 df2 df3. normalize_locations df = Inr df1 \<and> compute_distances df1 = Inr df2 \<and>
           determine_body_parts df2 = Inr df3"
proof -
  define df1 where "df1 = rescaled coordinate_columns df"
  from assms(1) have n: "normalize_locations df = Inr df1"
    by (simp add: normalize_locations_iff df1_def)
  have "numeric_column df1 (action @ ''_start_x'') \<and> numeric_column df1 (action @ ''_start_y'')"
    if "action \<in> set actions" for action
  proof -
    from that have "(key_x action ''start'', 105) \<in> set coordinate_columns"
      "(key_y action ''start'', 68) \<in> set coordinate_columns"
      by (auto simp: set_coordinate_columns sides_def)
    then have "action @ ''_start_x'' \<in> fst ` set coordinate_columns"
      "action @ ''_start_y'' \<in> fst ` set coordinate_columns"
      by (force simp: key_x_def key_y_def)+
    with assms(1) show ?thesis
      unfolding df1_def by (blast intro: rescaled_numeric)
  qed
  then obtain df2 where c: "compute_distances df1 = Inr df2"
    using compute_distances_total [of df1] by blast
  have "df2 (action @ ''_body_part_id'') \<noteq> None" if "action \<in> set actions" for action
  proof -
    from that have "df2 (action @ ''_body_part_id'') = df1 (action @ ''_body_part_id'')"
      by (intro compute_distances_frame [OF c]) (auto simp: actions_def)
    also from that have "\<dots> = df (action @ ''_body_part_id'')"
      unfolding df1_def by (intro rescaled_other) (auto simp: coordinate_keys actions_def)
    finally show ?thesis
      using assms(2) that by simp
  qed
  then obtain df3 where "determine_body_parts df2 = Inr df3"
    using determine_body_parts_total [of df2] by blast
  with n c show ?thesis by blast
qed

lemma prepare_total:
  assumes "\<forall>k \<in> fst ` set coordinate_columns. numeric_column df k"
    and "\<forall>action \<in> set actions. df (action @ ''_body_part_id'') \<noteq> None"
    and "df ''action_result'' \<noteq> None"
  shows "\<exists>X y. prepare df = Inr (X, y)"
proof -
  from features_total [OF assms(1,2)] obtain df1 df2 df3 where
    n: "normalize_locations df = Inr df1" and c: "compute_distances df1 = Inr df2" and
    b: "determine_body_parts df2 = Inr df3"
    by blast
  from n have df1: "df1 = rescaled coordinate_columns df"
    by (simp add: normalize_locations_iff)
  note kept2 = compute_distances_frame [OF c]
  note kept3 = determine_body_parts_frame [OF b]
  from distances_of_loaded [OF n c, of "''action''"] obtain xs ys ds where
    a0: "df1 ''action_start_x'' = Some xs" "df1 ''action_start_y'' = Some ys"
      "df2 ''action_start_distance'' = Some ds"
    by (auto simp: actions_def)
  from distances_of_loaded [OF n c, of "''action1''"] obtain ds1 where
    a1: "df2 ''action1_start_distance'' = Some ds1"
    by (auto simp: actions_def)
  from distances_of_loaded [OF n c, of "''action2''"] obtain ds2 where
    a2: "df2 ''action2_start_distance'' = Some ds2"
    by (auto simp: actions_def)
  from determine_body_parts_column [OF b, of "''action''"] obtain foot head where
    bp: "df3 ''action_is_foot'' = Some foot" "df3 ''action_is_head'' = Some head"
    by (auto simp: actions_def)
  have "df3 ''action_result'' = df2 ''action_result''"
    by (rule kept3) (simp add: actions_def)
  also have "\<dots> = df1 ''action_result''"
    by (rule kept2) (simp add: actions_def)
  also have "\<dots> = df ''action_result''"
    unfolding df1 by (rule rescaled_other) (simp add: coordinate_keys)
  finally obtain res where res: "df3 ''action_result'' = Some res"
    using assms(3) by auto
  have "df3 ''action_start_x'' = df2 ''action_start_x''"
    by (rule kept3) (simp add: actions_def)
  also have "\<dots> = df1 ''action_start_x''"
    by (rule kept2) (simp add: actions_def)
  finally have x3: "df3 ''action_start_x'' = Some xs"
    using a0(1) by simp
  have "df3 ''action_start_y'' = df2 ''action_start_y''"
    by (rule kept3) (simp add: actions_def)
  also have "\<dots> = df1 ''action_start_y''"
    by (rule kept2) (simp add: actions_def)
  finally have y3: "df3 ''action_start_y'' = Some ys"
    using a0(2) by simp
  have "df3 ''action_start_distance'' = df2 ''action_start_distance''"
    by (rule kept3) (simp add: actions_def)
  then have d0: "df3 ''action_start_distance'' = Some ds"
    using a0(3) by simp
  have "df3 ''action1_start_distance'' = df2 ''action1_start_distance''"
    by (rule kept3) (simp add: actions_def)
  then have d1: "df3 ''action1_start_distance'' = Some ds1"
    using a1 by simp
  have "df3 ''action2_start_distance'' = df2 ''action2_start_distance''"
    by (rule kept3) (simp add: actions_def)
  then have d2: "df3 ''action2_start_distance'' = Some ds2"
    using a2 by simp
  have "\<exists>X y. construct_dataset df3 = Inr (X, y)"
    by (simp add: construct_dataset_Inr_iff x3 y3 bp d0 d1 d2 res)
  with n c b show ?thesis
    by (auto simp: prepare_def)
qed

section \<open>What the cells overwrite\<close>


lemma sample_shots_body_parts:
  "\<forall>action \<in> set actions. sample_shots (action @ ''_body_part_id'') \<noteq> None"
  by (simp add: actions_def sample_shots_def)



section \<open>What the data set depends on\<close>

lemma end_columns_eq:
  "end_columns = {''action_end_x'', ''action_end_y'', ''action1_end_x'', ''action1_end_y'',
     ''action2_end_x'', ''action2_end_y''}"
  by (auto simp: end_columns_def actions_def key_x_def key_y_def)

lemma prepare_requires:
  assumes "prepare df = Inr (X, y)"
  shows "\<forall>k \<in> fst ` set coordinate_columns. numeric_column df k"
    and "\<forall>action \<in> set actions. df (action @ ''_body_part_id'') \<noteq> None"
proof -
  from assms obtain df1 df2 df3 where
    n: "normalize_locations df = Inr df1" and c: "compute_distances df1 = Inr df2" and
    b: "determine_body_parts df2 = Inr df3"
    by (auto simp: prepare_def and_then_Inr_iff)
  from n have df1: "df1 = rescaled coordinate_columns df"
    by (simp add: normalize_locations_iff)
  from n show "\<forall>k \<in> fst ` set coordinate_columns. numeric_column df k"
    by (simp add: normalize_locations_iff)
  show "\<forall>action \<in> set actions. df (action @ ''_body_part_id'') \<noteq> None"
  proof
    fix action assume a: "action \<in> set actions"
    from determine_body_parts_column [OF b a] have "df2 (action @ ''_body_part_id'') \<noteq> None"
      by auto
    moreover from a have "df2 (action @ ''_body_part_id'') = df1 (action @ ''_body_part_id'')"
      by (intro compute_distances_frame [OF c]) (auto simp: actions_def)
    moreover from a have "df1 (action @ ''_body_part_id'') = df (action @ ''_body_part_id'')"
      unfolding df1 by (intro rescaled_other) (auto simp: coordinate_keys actions_def)
    ultimately show "df (action @ ''_body_part_id'') \<noteq> None" by simp
  qed
qed

lemma prepare_agree:
  assumes "prepare df = Inr (X, y)" "prepare df' = Inr (X', y')"
    and "\<forall>k. k \<notin> end_columns \<longrightarrow> df' k = df k"
  shows "X' = X \<and> y' = y"
proof -
  from assms(3) have same:
    "df' ''action_start_x'' = df ''action_start_x''"
    "df' ''action_start_y'' = df ''action_start_y''"
    "df' ''action1_start_x'' = df ''action1_start_x''"
    "df' ''action1_start_y'' = df ''action1_start_y''"
    "df' ''action2_start_x'' = df ''action2_start_x''"
    "df' ''action2_start_y'' = df ''action2_start_y''"
    "df' ''action_body_part_id'' = df ''action_body_part_id''"
    "df' ''action_result'' = df ''action_result''"
    by (simp_all add: end_columns_eq)
  from prepare_dataset [OF assms(1)] prepare_dataset [OF assms(2)] show ?thesis
    unfolding same by (elim exE conjE) simp
qed

text \<open>
  C9: the feature matrix and the label vector do not depend on the end locations. When the
  preparation of a loaded frame returns X and y, then for every frame that differs from it
  only in the end_x and end_y columns of the three action slots, and still holds numbers
  there, the preparation returns the same X and the same y.
\<close>

theorem dataset_ignores_end_locations:
  assumes "prepare df = Inr (X, y)"
    and "\<forall>k. k \<notin> end_columns \<longrightarrow> df' k = df k"
    and "\<forall>k \<in> end_columns. numeric_column df' k"
  shows "prepare df' = Inr (X, y)"
proof -
  note req = prepare_requires [OF assms(1)]
  have "numeric_column df' k" if "k \<in> fst ` set coordinate_columns" for k
  proof (cases "k \<in> end_columns")
    case True
    with assms(3) show ?thesis by simp
  next
    case False
    with assms(2) have "df' k = df k" by simp
    moreover from req(1) that have "numeric_column df k" by blast
    ultimately show ?thesis
      by (simp add: numeric_column_def)
  qed
  moreover have "df' (action @ ''_body_part_id'') \<noteq> None" if "action \<in> set actions" for action
  proof -
    from that have "action @ ''_body_part_id'' \<notin> end_columns"
      by (auto simp: end_columns_eq actions_def)
    with assms(2) req(2) that show ?thesis by simp
  qed
  moreover have "df' ''action_result'' \<noteq> None"
    using prepare_dataset [OF assms(1)] assms(2) by (auto simp: end_columns_eq)
  ultimately obtain X' y' where run: "prepare df' = Inr (X', y')"
    using prepare_total [of df'] by blast
  from prepare_agree [OF assms(1) run assms(2)] run show ?thesis by simp
qed

lemma sample_shots_prepare: "\<exists>X y. prepare sample_shots = Inr (X, y)"
  using sample_shots_numeric sample_shots_body_parts
  by (rule prepare_total) (simp add: sample_shots_def)

theorem dataset_ignores_end_locations_witness:
  "\<exists>X y. prepare sample_shots = Inr (X, y) \<and> prepare moved_shots = Inr (X, y) \<and>
      sample_shots ''action_end_x'' = Some [F 105, F 105, F 21] \<and>
      moved_shots ''action_end_x'' = Some [F 3, F 4, F 5]"
proof -
  from sample_shots_prepare obtain X y where run: "prepare sample_shots = Inr (X, y)"
    by blast
  have same: "\<forall>k. k \<notin> end_columns \<longrightarrow> moved_shots k = sample_shots k"
    by (simp add: end_columns_eq moved_shots_def)
  have num: "\<forall>k \<in> end_columns. numeric_column moved_shots k"
    by (simp add: end_columns_eq moved_shots_def sample_shots_def numeric_column_def numeric_def)
  from dataset_ignores_end_locations [OF run same num] run show ?thesis
    by (simp add: moved_shots_def sample_shots_def)
qed

text \<open>
  C10: the columns of X are the seven of \<open>columns_features\<close>, and action_is_other is not
  among them. In the two indicator columns that are, action_is_foot and action_is_head, a
  shot with body-part code 2 and a shot with a code outside 0, 1, 2 both hold False: X
  does not tell the body part "other" from a code that stands for no body part.
\<close>

theorem other_body_part_not_a_feature:
  assumes "prepare df = Inr (X, y)" "df ''action_body_part_id'' = Some bp"
    and "i < length bp" "j < length bp" "bp ! i = I 2" "bp ! j = I n" "n \<notin> {0, 1, 2}"
  shows "map fst X = columns_features \<and> ''action_is_other'' \<notin> set columns_features \<and>
         (\<exists>foot head. map_of X ''action_is_foot'' = Some foot \<and>
            map_of X ''action_is_head'' = Some head \<and>
            foot ! i = B False \<and> head ! i = B False \<and>
            foot ! j = B False \<and> head ! j = B False)"
proof -
  from prepare_dataset [OF assms(1)] assms(2) obtain c1 c2 c5 c6 c7 where
    X: "X = [(''action_start_x'', c1), (''action_start_y'', c2),
           (''action_is_foot'', series_eq bp 0), (''action_is_head'', series_eq bp 1),
           (''action_start_distance'', c5), (''action1_start_distance'', c6),
           (''action2_start_distance'', c7)]"
    by auto
  have "map_of X ''action_is_foot'' = Some (series_eq bp 0)"
    "map_of X ''action_is_head'' = Some (series_eq bp 1)"
    by (simp_all add: X)
  moreover from assms(3-7) have
    "series_eq bp 0 ! i = B False" "series_eq bp 1 ! i = B False"
    "series_eq bp 0 ! j = B False" "series_eq bp 1 ! j = B False"
    by (simp_all add: series_eq_def)
  moreover have "map fst X = columns_features" "''action_is_other'' \<notin> set columns_features"
    by (simp_all add: X columns_features_def)
  ultimately show ?thesis by simp
qed

lemma odd_shots_prepare: "\<exists>X y. prepare odd_shots = Inr (X, y)"
proof (rule prepare_total)
  show "\<forall>k \<in> fst ` set coordinate_columns. numeric_column odd_shots k"
    unfolding coordinate_keys
    by (simp add: odd_shots_def sample_shots_def numeric_column_def numeric_def)
  show "\<forall>action \<in> set actions. odd_shots (action @ ''_body_part_id'') \<noteq> None"
    by (simp add: actions_def odd_shots_def sample_shots_def)
  show "odd_shots ''action_result'' \<noteq> None"
    by (simp add: odd_shots_def sample_shots_def)
qed

theorem other_body_part_not_a_feature_witness:
  "\<exists>X y foot head. prepare odd_shots = Inr (X, y) \<and>
      odd_shots ''action_body_part_id'' = Some [I 2, I 7, I 0] \<and>
      map fst X = columns_features \<and>
      map_of X ''action_is_foot'' = Some foot \<and> map_of X ''action_is_head'' = Some head \<and>
      foot ! 0 = B False \<and> head ! 0 = B False \<and> foot ! 1 = B False \<and> head ! 1 = B False"
proof -
  from odd_shots_prepare obtain X y where run: "prepare odd_shots = Inr (X, y)"
    by blast
  have bp: "odd_shots ''action_body_part_id'' = Some [I 2, I 7, I 0]"
    by (simp add: odd_shots_def)
  from other_body_part_not_a_feature [OF run bp, of 0 1 7] run bp show ?thesis
    by auto
qed

section \<open>The split\<close>

lemma n_test_bounds:
  assumes "2 \<le> n"
  shows "nat \<lceil>1 / 10 * real n\<rceil> < n" and "0 < nat \<lceil>1 / 10 * real n\<rceil>"
proof -
  have "\<lceil>1 / 10 * real n\<rceil> < int n"
    using assms by (simp add: ceiling_less_iff)
  then show "nat \<lceil>1 / 10 * real n\<rceil> < n" by linarith
  have "0 < \<lceil>1 / 10 * real n\<rceil>"
    using assms by (simp add: less_ceiling_iff)
  then show "0 < nat \<lceil>1 / 10 * real n\<rceil>" by simp
qed

lemma cell_25_eq:
  assumes "list_all (\<lambda>(key, col). length col = length y) X" "2 \<le> length y"
  shows "cell_25 perm X y =
           Inr (take_part (take (length y - nat \<lceil>1 / 10 * real (length y)\<rceil>)
                            (drop (nat \<lceil>1 / 10 * real (length y)\<rceil>) perm)) X y,
                take_part (take (nat \<lceil>1 / 10 * real (length y)\<rceil>) perm) X y)"
  using assms n_test_bounds(1) [OF assms(2)]
  by (simp add: cell_25_def train_test_split_def Let_def)

text \<open>
  C4: for a feature matrix X and a label vector y of the same N rows, N at least 2, and any
  shuffle of the row positions, the split returns a train part and a test part. Their sizes
  add up to N, the test part has \<open>\<lceil>N / 10\<rceil>\<close> rows, no row position is in both parts and
  every row position is in one of them, and each part holds, at every position, the cells
  of X and the cell of y of one and the same row.
\<close>

theorem split_partitions_rows:
  assumes "distinct perm" "set perm = {0..<length y}"
    and "list_all (\<lambda>(key, col). length col = length y) X" "2 \<le> length y"
  shows "\<exists>train test. cell_25 perm X y = Inr (train, test) \<and>
           length (labels train) + length (labels test) = length y \<and>
           length (labels test) = nat \<lceil>real (length y) / 10\<rceil> \<and>
           length (index train) = length (labels train) \<and>
           length (index test) = length (labels test) \<and>
           set (index train) \<inter> set (index test) = {} \<and>
           set (index train) \<union> set (index test) = {0..<length y} \<and>
           distinct (index train) \<and> distinct (index test) \<and>
           labels train = map (\<lambda>i. y ! i) (index train) \<and>
           labels test = map (\<lambda>i. y ! i) (index test) \<and>
           features train = map (\<lambda>(key, col). (key, map (\<lambda>i. col ! i) (index train))) X \<and>
           features test = map (\<lambda>(key, col). (key, map (\<lambda>i. col ! i) (index test))) X"
proof -
  define n where "n = length y"
  define n_test where "n_test = nat \<lceil>1 / 10 * real n\<rceil>"
  have len: "length perm = n"
    using assms(1,2) distinct_card [of perm] by (simp add: n_def)
  have lt: "n_test < n"
    unfolding n_test_def using assms(4) by (simp only: n_test_bounds n_def)
  have whole: "take (n - n_test) (drop n_test perm) = drop n_test perm"
    by (simp add: len)
  have parts: "take n_test perm @ drop n_test perm = perm"
    by simp
  have disj: "set (drop n_test perm) \<inter> set (take n_test perm) = {}"
    using assms(1) set_take_disj_set_drop_if_distinct [of perm n_test n_test] by auto
  have cover: "set (drop n_test perm) \<union> set (take n_test perm) = {0..<n}"
    using parts assms(2) by (metis n_def set_append sup_commute)
  have run: "cell_25 perm X y =
      Inr (take_part (drop n_test perm) X y, take_part (take n_test perm) X y)"
    using cell_25_eq [OF assms(3,4), of perm] whole by (simp add: n_def n_test_def)
  show ?thesis
    unfolding run using lt len disj cover assms(1)
    by (simp add: take_part_def take_rows_def n_def [symmetric] n_test_def [symmetric])
      (simp add: n_test_def)
qed

lemma hundred_rows:
  "length hundred_labels = 100"
  "list_all (\<lambda>(key, col). length col = length hundred_labels) hundred_features"
proof -
  show n: "length hundred_labels = 100"
    by (simp only: hundred_labels_def length_map length_upt diff_zero)
  have "length (map (\<lambda>i. F (real i / 100)) [0..<100]) = length hundred_labels"
    by (simp only: n length_map length_upt diff_zero)
  then show "list_all (\<lambda>(key, col). length col = length hundred_labels) hundred_features"
    by (simp only: hundred_features_def list.pred_inject case_prod_conv)
qed

theorem split_partitions_rows_witness:
  "\<exists>train test. cell_25 (rev [0..<100]) hundred_features hundred_labels = Inr (train, test) \<and>
      length hundred_labels = 100 \<and>
      length (labels test) = 10 \<and> length (labels train) = 90 \<and>
      set (index train) \<inter> set (index test) = {}"
proof -
  have p: "distinct (rev [0..<100])" "set (rev [0..<100]) = {0..<length hundred_labels}"
    by (simp_all only: distinct_rev distinct_upt set_rev set_upt hundred_rows(1))
  have two: "2 \<le> length hundred_labels"
    by (simp add: hundred_rows(1))
  from split_partitions_rows [OF p hundred_rows(2) two] obtain train test where
    run: "cell_25 (rev [0..<100]) hundred_features hundred_labels = Inr (train, test)"
    and total: "length (labels train) + length (labels test) = length hundred_labels"
    and test: "length (labels test) = nat \<lceil>real (length hundred_labels) / 10\<rceil>"
    and apart: "set (index train) \<inter> set (index test) = {}"
    by blast
  from test have ten: "length (labels test) = 10"
    by (simp add: hundred_rows(1))
  with total have "length (labels train) = 90"
    by (simp add: hundred_rows(1))
  with run ten apart hundred_rows(1) show ?thesis
    by blast
qed

section \<open>The baseline for AUC-PR\<close>

lemma series_sum_from_binary:
  assumes "\<forall>c \<in> set col. c = I 0 \<or> c = I 1"
  shows "series_sum_from (I a) col = Inr (I (a + int (positives col)))"
  using assms
  by (induction col arbitrary: a) (auto simp: positives_def)

text \<open>
  C5, as the code has it: for a training set that is not empty and whose labels are the
  integers 0 and 1, the baseline for AUC-PR is the number of positive labels divided by the
  number of labels. No factor 0.10 enters it.
\<close>

theorem baseline_is_positive_ratio:
  assumes "y_train \<noteq> []" "\<forall>c \<in> set y_train. c = I 0 \<or> c = I 1"
  shows "auc_pr_baseline y_train =
           Inr (Some (real (positives y_train) / real (length y_train)))"
  using assms(1)
  by (simp add: auc_pr_baseline_def cell_33_def cell_36_def series_sum_def series_count_def
      series_sum_from_binary [OF assms(2)] Let_def)

lemma ninety_goals_counts: "length ninety_goals = 900" "positives ninety_goals = 90"
  by (simp_all add: ninety_goals_def positives_def)

lemma ninety_goals_binary: "\<forall>c \<in> set ninety_goals. c = I 0 \<or> c = I 1"
  by (auto simp: ninety_goals_def)

theorem baseline_is_positive_ratio_witness:
  "auc_pr_baseline ninety_goals = Inr (Some (1 / 10))"
proof -
  have "ninety_goals \<noteq> []"
    using ninety_goals_counts(1) by auto
  from baseline_is_positive_ratio [OF this ninety_goals_binary] show ?thesis
    by (simp add: ninety_goals_counts)
qed

text \<open>
  C5 as stated fails: with 90 goals among the 900 training shots the baseline is 0.10, the
  ratio itself, and not 0.10 times the ratio, which is 0.01.
\<close>

theorem baseline_has_no_factor:
  "positives ninety_goals = 90 \<and> length ninety_goals = 900 \<and>
   auc_pr_baseline ninety_goals = Inr (Some (90 / 900)) \<and>
   auc_pr_baseline ninety_goals \<noteq> Inr (Some (1 / 10 * (90 / 900)))"
proof -
  have sum: "series_sum_from (I 0) ninety_goals = Inr (I (0 + int (positives ninety_goals)))"
    using ninety_goals_binary by (rule series_sum_from_binary)
  have "auc_pr_baseline ninety_goals = Inr (Some (90 / 900))"
    by (simp add: auc_pr_baseline_def cell_33_def cell_36_def series_sum_def series_count_def
        sum ninety_goals_counts)
  then show ?thesis
    by (simp add: ninety_goals_counts)
qed

end
